theory Spec2Isabelle
  imports Main
begin

section \<open>The domain logic of photopin-api over an explicit document store\<close>

text \<open>
  The object \<open>logic\<close> of photopin-api is a set of operations over three Mongoose models
  (\<open>User\<close>, \<open>PMap\<close>, \<open>Pin\<close>). Each operation is embedded as a function from the store to
  a result and the store after the call. A thrown error (or a rejected promise) is the
  left injection of the result. The store is always returned, so that "the call changed
  nothing" is a statement about the model and not a convention.
\<close>

subsection \<open>Errors\<close>

text \<open>
  The four validation errors of photopin-errors named in the doc comment of
  \<open>registerUser\<close>, and \<open>LogicError\<close> with its message. \<open>CastError\<close> is not an error of
  the logic: it is what a Mongoose query rejects with when a value of its filter cannot
  be cast to the type of the path, here a string that is not the spelling of an ObjectId.
\<close>

datatype error =
    TypeError
  | RequirementError
  | ValueError
  | FormatError
  | LogicError string
  | CastError

fun is_LogicError :: "error + 'a \<Rightarrow> bool" where
  "is_LogicError (Inl (LogicError msg)) = True"
| "is_LogicError r = False"

subsection \<open>Documents\<close>

text \<open>
  A stored identifier is an ObjectId, written as the string that \<open>toString\<close> gives
  (\<open>newUser.id\<close>, \<open>map._id.toString()\<close>). Where an operation is given the identifier of
  a document in that spelling, \<open>author.equals(userId)\<close> is equality of the two strings.
  The two operations that read maps are stated for every string they may receive: they
  take the cast of the driver and its \<open>equals\<close> as parameters (see below).
\<close>

type_synonym oid = string

record user =
  u_id :: oid
  u_name :: string
  u_surname :: string
  u_email :: string
  u_password :: string
  u_avatar :: "string option"
  u_language :: "string option"
  u_favoritePublicMap :: "oid option"

text \<open>
  A collection is embedded in its map. The type parameter is what its pin sequence
  holds: identifiers in the store, pin documents after \<open>populate("collections.pins")\<close>.
\<close>

record 'p collection =
  c_title :: string
  c_pins :: "'p list"

record 'p pmap =
  m_id :: oid
  m_title :: string
  m_description :: string
  m_coverImage :: string
  m_isPublic :: bool
  m_author :: oid
  m_collections :: "'p collection list"

text \<open>
  A pin carries its identifier, its map and its author; \<open>p_data\<close> stands for the
  descriptive fields (title, description, urlImage, bestTimeOfYear, bestTimeOfDay,
  photographyTips, travelInformation, coordinates), which no operation modelled here reads.
\<close>

record 'd pin =
  p_id :: oid
  p_mapId :: oid
  p_author :: oid
  p_data :: 'd

subsection \<open>The store and the model methods the logic calls\<close>

datatype model = User | PMap | Pin

text \<open>
  The write calls issued to the store, in the order they are issued. A call is recorded
  whether or not a document matched it.
\<close>

datatype call =
    Create model oid
  | Save model oid
  | FindByIdAndUpdate model oid
  | FindByIdAndDelete model oid
  | FindOneAndDelete model oid oid
  | DeleteMany model oid

text \<open>
  Each of the three collections of the store is the list of its documents, oldest first.
  A query that resolves to one document (\<open>findOne\<close>, \<open>findById\<close> and the
  \<open>findOneAnd...\<close> family) takes the first match. The store itself keeps \<open>_id\<close> unique
  within a collection; where a property depends on it, that is a hypothesis on the
  list. Failures of the storage itself (a lost connection, a rejected write) are outside
  the model: every call that reaches the store returns, so the handlers that only catch
  such a failure are not taken. A query whose filter does not cast never reaches the
  store: that rejection is part of the two operations that read maps.
\<close>

record 'd store =
  st_users :: "user list"
  st_maps :: "oid pmap list"
  st_pins :: "'d pin list"
  st_journal :: "call list"

fun update_first :: "('a \<Rightarrow> bool) \<Rightarrow> ('a \<Rightarrow> 'a) \<Rightarrow> 'a list \<Rightarrow> 'a list" where
  "update_first q f [] = []"
| "update_first q f (x # xs) = (if q x then f x # xs else x # update_first q f xs)"

fun delete_first :: "('a \<Rightarrow> bool) \<Rightarrow> 'a list \<Rightarrow> 'a list" where
  "delete_first q [] = []"
| "delete_first q (x # xs) = (if q x then xs else x # delete_first q xs)"

definition issue :: "call \<Rightarrow> 'd store \<Rightarrow> 'd store" where
  "issue c s = s\<lparr>st_journal := st_journal s @ [c]\<rparr>"

definition User_findOne_email :: "string \<Rightarrow> 'd store \<Rightarrow> user option" where
  "User_findOne_email email s = find (\<lambda>u. u_email u = email) (st_users s)"

definition User_findById :: "oid \<Rightarrow> 'd store \<Rightarrow> user option" where
  "User_findById userId s = find (\<lambda>u. u_id u = userId) (st_users s)"

definition User_create :: "user \<Rightarrow> 'd store \<Rightarrow> user \<times> 'd store" where
  "User_create doc s =
     (doc, issue (Create User (u_id doc)) (s\<lparr>st_users := st_users s @ [doc]\<rparr>))"

text \<open>
  The object given to \<open>$set\<close>: a field that is \<open>None\<close> is a key the object does not have.
  The identifier is not among the keys (it cannot be set).
\<close>

record user_data =
  d_name :: "string option"
  d_surname :: "string option"
  d_email :: "string option"
  d_password :: "string option"
  d_avatar :: "string option"
  d_language :: "string option"
  d_favoritePublicMap :: "oid option"

definition set_fields :: "user_data \<Rightarrow> user \<Rightarrow> user" where
  "set_fields data u = u\<lparr>
     u_name := (case d_name data of Some v \<Rightarrow> v | None \<Rightarrow> u_name u),
     u_surname := (case d_surname data of Some v \<Rightarrow> v | None \<Rightarrow> u_surname u),
     u_email := (case d_email data of Some v \<Rightarrow> v | None \<Rightarrow> u_email u),
     u_password := (case d_password data of Some v \<Rightarrow> v | None \<Rightarrow> u_password u),
     u_avatar := (case d_avatar data of Some v \<Rightarrow> Some v | None \<Rightarrow> u_avatar u),
     u_language := (case d_language data of Some v \<Rightarrow> Some v | None \<Rightarrow> u_language u),
     u_favoritePublicMap :=
       (case d_favoritePublicMap data of Some v \<Rightarrow> Some v | None \<Rightarrow> u_favoritePublicMap u)\<rparr>"

text \<open>
  \<open>findByIdAndUpdate\<close> without the option \<open>new\<close> resolves to the document as it was
  found, before the update, or to null.
\<close>

definition User_findByIdAndUpdate :: "oid \<Rightarrow> user_data \<Rightarrow> 'd store \<Rightarrow> user option \<times> 'd store" where
  "User_findByIdAndUpdate userId data s =
     (User_findById userId s,
      issue (FindByIdAndUpdate User userId)
        (s\<lparr>st_users := update_first (\<lambda>u. u_id u = userId) (set_fields data) (st_users s)\<rparr>))"

definition User_findByIdAndDelete :: "oid \<Rightarrow> 'd store \<Rightarrow> user option \<times> 'd store" where
  "User_findByIdAndDelete userId s =
     (User_findById userId s,
      issue (FindByIdAndDelete User userId)
        (s\<lparr>st_users := delete_first (\<lambda>u. u_id u = userId) (st_users s)\<rparr>))"

definition PMap_findById :: "oid \<Rightarrow> 'd store \<Rightarrow> oid pmap option" where
  "PMap_findById mapId s = find (\<lambda>m. m_id m = mapId) (st_maps s)"

definition PMap_find_author :: "oid \<Rightarrow> 'd store \<Rightarrow> oid pmap list" where
  "PMap_find_author userId s = filter (\<lambda>m. m_author m = userId) (st_maps s)"

definition PMap_save :: "oid pmap \<Rightarrow> 'd store \<Rightarrow> oid pmap \<times> 'd store" where
  "PMap_save doc s =
     (doc,
      issue (Save PMap (m_id doc))
        (s\<lparr>st_maps := update_first (\<lambda>m. m_id m = m_id doc) (\<lambda>m. doc) (st_maps s)\<rparr>))"

definition PMap_deleteMany_author :: "oid \<Rightarrow> 'd store \<Rightarrow> 'd store" where
  "PMap_deleteMany_author userId s =
     issue (DeleteMany PMap userId)
       (s\<lparr>st_maps := filter (\<lambda>m. m_author m \<noteq> userId) (st_maps s)\<rparr>)"

definition Pin_findById :: "oid \<Rightarrow> 'd store \<Rightarrow> 'd pin option" where
  "Pin_findById pinId s = find (\<lambda>p. p_id p = pinId) (st_pins s)"

definition Pin_deleteMany_author :: "oid \<Rightarrow> 'd store \<Rightarrow> 'd store" where
  "Pin_deleteMany_author userId s =
     issue (DeleteMany Pin userId)
       (s\<lparr>st_pins := filter (\<lambda>p. p_author p \<noteq> userId) (st_pins s)\<rparr>)"

definition Pin_findOneAndDelete :: "oid \<Rightarrow> oid \<Rightarrow> 'd store \<Rightarrow> 'd pin option \<times> 'd store" where
  "Pin_findOneAndDelete pinId userId s =
     (find (\<lambda>p. p_id p = pinId \<and> p_author p = userId) (st_pins s),
      issue (FindOneAndDelete Pin pinId userId)
        (s\<lparr>st_pins := delete_first (\<lambda>p. p_id p = pinId \<and> p_author p = userId) (st_pins s)\<rparr>))"

text \<open>
  \<open>populate("collections.pins")\<close> replaces each identifier by the pin document it
  resolves to; an identifier that resolves to no document is dropped.
\<close>

definition populate_collection :: "'d store \<Rightarrow> oid collection \<Rightarrow> 'd pin collection" where
  "populate_collection s c =
     \<lparr>c_title = c_title c, c_pins = List.map_filter (\<lambda>i. Pin_findById i s) (c_pins c)\<rparr>"

definition populate :: "'d store \<Rightarrow> oid pmap \<Rightarrow> 'd pin pmap" where
  "populate s m =
     \<lparr>m_id = m_id m, m_title = m_title m, m_description = m_description m,
      m_coverImage = m_coverImage m, m_isPublic = m_isPublic m, m_author = m_author m,
      m_collections = map (populate_collection s) (m_collections m)\<rparr>"

subsection \<open>External collaborators taken as parameters\<close>

text \<open>
  photopin-validate is not part of the sources: the logic only calls
  \<open>validate.arguments\<close> with a list of constraints and \<open>validate.email\<close> with a string,
  and either call may throw. Both are parameters of every operation; \<open>None\<close> is a call
  that returns without throwing.
\<close>

record map_data =
  d_title :: "string option"
  d_description :: "string option"
  d_coverImage :: "string option"

datatype jsvalue =
    VString string
  | VUserData user_data
  | VMapData map_data

record arg =
  arg_name :: string
  arg_value :: jsvalue
  arg_type :: string
  arg_notEmpty :: bool

record validate =
  validate_arguments :: "arg list \<Rightarrow> error option"
  validate_email :: "string \<Rightarrow> error option"

definition string_notEmpty :: "string \<Rightarrow> string \<Rightarrow> arg" where
  "string_notEmpty n v =
     \<lparr>arg_name = n, arg_value = VString v, arg_type = ''string'', arg_notEmpty = True\<rparr>"

text \<open>
  The driver (Mongoose with the ObjectId of bson) is not part of the sources either.
  \<open>castObjectId\<close> is the cast applied to a string given where a path holds an ObjectId:
  the ObjectId the string spells, in its \<open>toString\<close> spelling, or \<open>None\<close> when the string
  spells no ObjectId and the query rejects with \<open>CastError\<close>. \<open>ObjectId_equals\<close> is the
  method \<open>equals\<close> of a stored ObjectId applied to a string.
\<close>

record driver =
  castObjectId :: "string \<Rightarrow> oid option"
  ObjectId_equals :: "oid \<Rightarrow> string \<Rightarrow> bool"

text \<open>
  bcrypt is the credential service: \<open>hash(password, rounds)\<close> and
  \<open>compare(password, digest)\<close>.
\<close>

record bcrypt =
  bcrypt_hash :: "string \<Rightarrow> nat \<Rightarrow> string"
  bcrypt_compare :: "string \<Rightarrow> string \<Rightarrow> bool"

subsection \<open>User operations\<close>

definition registerUser_args :: "string \<Rightarrow> string \<Rightarrow> string \<Rightarrow> string \<Rightarrow> arg list" where
  "registerUser_args name surname email password =
     [string_notEmpty ''name'' name, string_notEmpty ''surname'' surname,
      string_notEmpty ''email'' email, string_notEmpty ''password'' password]"

text \<open>
  \<open>newId\<close> is the identifier the store gives to the created document. A new user has
  the four fields the call to \<open>User.create\<close> passes and no other. The validation
  calls run before the asynchronous body, in the order of the source.
\<close>

definition registerUser ::
  "validate \<Rightarrow> bcrypt \<Rightarrow> oid \<Rightarrow> string \<Rightarrow> string \<Rightarrow> string \<Rightarrow> string \<Rightarrow> 'd store
   \<Rightarrow> (error + oid) \<times> 'd store" where
  "registerUser V B newId name surname email password s =
     (case validate_arguments V (registerUser_args name surname email password) of
        Some e \<Rightarrow> (Inl e, s)
      | None \<Rightarrow>
     (case validate_email V email of
        Some e \<Rightarrow> (Inl e, s)
      | None \<Rightarrow>
     (case User_findOne_email email s of
        Some user \<Rightarrow> (Inl (LogicError (''user with email '' @ email @ '' already exists'')), s)
      | None \<Rightarrow>
          (let hash = bcrypt_hash B password 10;
               (newUser, s') =
                  User_create \<lparr>u_id = newId, u_name = name, u_surname = surname,
                    u_email = email, u_password = hash, u_avatar = None, u_language = None,
                    u_favoritePublicMap = None\<rparr> s
           in (Inr (u_id newUser), s')))))"

definition authenticateUser_args :: "string \<Rightarrow> string \<Rightarrow> arg list" where
  "authenticateUser_args email password =
     [string_notEmpty ''email'' email, string_notEmpty ''password'' password]"

definition authenticateUser ::
  "validate \<Rightarrow> bcrypt \<Rightarrow> string \<Rightarrow> string \<Rightarrow> 'd store \<Rightarrow> (error + oid) \<times> 'd store" where
  "authenticateUser V B email password s =
     (case validate_arguments V (authenticateUser_args email password) of
        Some e \<Rightarrow> (Inl e, s)
      | None \<Rightarrow>
     (case validate_email V email of
        Some e \<Rightarrow> (Inl e, s)
      | None \<Rightarrow>
     (case User_findOne_email email s of
        None \<Rightarrow> (Inl (LogicError (''user with email '' @ email @ '' doesn't exists'')), s)
      | Some user \<Rightarrow>
          if bcrypt_compare B password (u_password user) then (Inr (u_id user), s)
          else (Inl (LogicError ''wrong credentials''), s))))"

text \<open>
  The projection \<open>select("-__v -password")\<close> of a user, with \<open>id\<close> in the place of
  \<open>_id\<close>.
\<close>

record user_view =
  uv_id :: oid
  uv_name :: string
  uv_surname :: string
  uv_email :: string
  uv_avatar :: "string option"
  uv_language :: "string option"
  uv_favoritePublicMap :: "oid option"

definition select_user :: "user \<Rightarrow> user_view" where
  "select_user u =
     \<lparr>uv_id = u_id u, uv_name = u_name u, uv_surname = u_surname u, uv_email = u_email u,
      uv_avatar = u_avatar u, uv_language = u_language u,
      uv_favoritePublicMap = u_favoritePublicMap u\<rparr>"

definition updateUser_args :: "oid \<Rightarrow> user_data \<Rightarrow> arg list" where
  "updateUser_args userId data =
     [string_notEmpty ''id'' userId,
      \<lparr>arg_name = ''data'', arg_value = VUserData data, arg_type = ''object'',
       arg_notEmpty = True\<rparr>]"

text \<open>
  When no user has the identifier, \<open>result\<close> is null, \<open>result._id\<close> throws inside the
  \<open>try\<close> block and the handler throws the \<open>LogicError\<close>.
\<close>

definition updateUser ::
  "validate \<Rightarrow> oid \<Rightarrow> user_data \<Rightarrow> 'd store \<Rightarrow> (error + user_view) \<times> 'd store" where
  "updateUser V userId data s =
     (case validate_arguments V (updateUser_args userId data) of
        Some e \<Rightarrow> (Inl e, s)
      | None \<Rightarrow>
     (case User_findByIdAndUpdate userId data s of
        (None, s') \<Rightarrow>
          (Inl (LogicError (''user with id '' @ userId @ '' doesn't exists'')), s')
      | (Some result, s') \<Rightarrow> (Inr (select_user result), s')))"

definition removeUser_args :: "oid \<Rightarrow> arg list" where
  "removeUser_args userId = [string_notEmpty ''id'' userId]"

definition removeUser ::
  "validate \<Rightarrow> oid \<Rightarrow> 'd store \<Rightarrow> (error + user option) \<times> 'd store" where
  "removeUser V userId s =
     (case validate_arguments V (removeUser_args userId) of
        Some e \<Rightarrow> (Inl e, s)
      | None \<Rightarrow>
     (case User_findById userId s of
        None \<Rightarrow> (Inl (LogicError (''user with id '' @ userId @ '' doesn't exists'')), s)
      | Some user \<Rightarrow>
          (let s1 = Pin_deleteMany_author userId s;
               s2 = PMap_deleteMany_author userId s1;
               (deleted, s3) = User_findByIdAndDelete userId s2
           in (Inr deleted, s3))))"

subsection \<open>Map operations\<close>

text \<open>An array is an object, and every object is truthy, the empty array too.\<close>

definition truthy_array :: "'a list \<Rightarrow> bool" where
  "truthy_array xs = True"

text \<open>A key the object does not have reads as undefined; a string is truthy unless empty.\<close>

fun truthy :: "string option \<Rightarrow> bool" where
  "truthy None = False"
| "truthy (Some v) = (v \<noteq> [])"

text \<open>
  The documents of the model have one identifier field, so replacing \<open>_id\<close> by \<open>id\<close>
  (and dropping \<open>__v\<close>) leaves them as they are.
\<close>

definition retrieveUserMaps_args :: "oid \<Rightarrow> arg list" where
  "retrieveUserMaps_args userId = [string_notEmpty ''userId'' userId]"

text \<open>
  \<open>PMap.find({ author: userId })\<close> casts \<open>userId\<close> to the ObjectId of the path \<open>author\<close>.
  The call is not inside a \<open>try\<close> block: when the cast fails the operation rejects with
  the \<open>CastError\<close> of the query.
\<close>

definition retrieveUserMaps ::
  "validate \<Rightarrow> driver \<Rightarrow> string \<Rightarrow> 'd store \<Rightarrow> (error + oid pmap list) \<times> 'd store" where
  "retrieveUserMaps V D userId s =
     (case validate_arguments V (retrieveUserMaps_args userId) of
        Some e \<Rightarrow> (Inl e, s)
      | None \<Rightarrow>
     (case castObjectId D userId of
        None \<Rightarrow> (Inl CastError, s)
      | Some author \<Rightarrow>
          (let maps = PMap_find_author author s
           in if \<not> truthy_array maps
              then (Inl (LogicError (''no maps for user with id '' @ userId)), s)
              else (Inr maps, s))))"

definition retrieveUserMap_args :: "oid \<Rightarrow> oid \<Rightarrow> arg list" where
  "retrieveUserMap_args userId mapId =
     [string_notEmpty ''userId'' userId, string_notEmpty ''mapId'' mapId]"

text \<open>
  \<open>PMap.findById(mapId)\<close> casts \<open>mapId\<close> to an ObjectId. This call is not inside a \<open>try\<close>
  block either (the same call in \<open>createPin\<close> is, and its handler throws the
  \<open>LogicError\<close>): when the cast fails the operation rejects with the \<open>CastError\<close>.
\<close>

definition retrieveUserMap ::
  "validate \<Rightarrow> driver \<Rightarrow> string \<Rightarrow> string \<Rightarrow> 'd store \<Rightarrow> (error + 'd pin pmap) \<times> 'd store" where
  "retrieveUserMap V D userId mapId s =
     (case validate_arguments V (retrieveUserMap_args userId mapId) of
        Some e \<Rightarrow> (Inl e, s)
      | None \<Rightarrow>
     (case castObjectId D mapId of
        None \<Rightarrow> (Inl CastError, s)
      | Some i \<Rightarrow>
     (case PMap_findById i s of
        None \<Rightarrow> (Inl (LogicError (''no maps for user with id '' @ mapId)), s)
      | Some m \<Rightarrow>
          if \<not> m_isPublic m \<and> \<not> ObjectId_equals D (m_author m) userId
          then (Inl (LogicError (''map '' @ mapId @ '' is not from user '' @ userId)), s)
          else (Inr (populate s m), s))))"

definition updateMap_args :: "oid \<Rightarrow> oid \<Rightarrow> map_data \<Rightarrow> arg list" where
  "updateMap_args userId mapId data =
     [string_notEmpty ''userId'' userId, string_notEmpty ''mapId'' mapId,
      \<lparr>arg_name = ''data'', arg_value = VMapData data, arg_type = ''object'',
       arg_notEmpty = True\<rparr>]"

definition updateMap ::
  "validate \<Rightarrow> oid \<Rightarrow> oid \<Rightarrow> map_data \<Rightarrow> 'd store \<Rightarrow> (error + oid pmap) \<times> 'd store" where
  "updateMap V userId mapId data s =
     (case validate_arguments V (updateMap_args userId mapId data) of
        Some e \<Rightarrow> (Inl e, s)
      | None \<Rightarrow>
     (case PMap_findById mapId s of
        None \<Rightarrow> (Inl (LogicError (''no map with id '' @ mapId)), s)
      | Some m \<Rightarrow>
          if \<not> m_author m = userId
          then (Inl (LogicError (''map '' @ mapId @ '' is not from user '' @ userId)), s)
          else
            (let m1 = (if truthy (d_title data) then m\<lparr>m_title := the (d_title data)\<rparr> else m);
                 m2 = (if truthy (d_description data)
                       then m1\<lparr>m_description := the (d_description data)\<rparr> else m1);
                 m3 = (if truthy (d_coverImage data)
                       then m2\<lparr>m_coverImage := the (d_coverImage data)\<rparr> else m2);
                 (result, s') = PMap_save m3 s
             in (Inr result, s'))))"

subsection \<open>Collection operations\<close>

text \<open>\<open>Array.prototype.findIndex\<close>: the index of the first match, or -1.\<close>

fun findIndex :: "('a \<Rightarrow> bool) \<Rightarrow> 'a list \<Rightarrow> int" where
  "findIndex q [] = - 1"
| "findIndex q (x # xs) =
     (if q x then 0 else (let i = findIndex q xs in if i < 0 then - 1 else i + 1))"

definition createCollection_args :: "oid \<Rightarrow> oid \<Rightarrow> string \<Rightarrow> arg list" where
  "createCollection_args userId mapId collectionTitle =
     [string_notEmpty ''userId'' userId, string_notEmpty ''mapId'' mapId,
      string_notEmpty ''collectionTitle'' collectionTitle]"

text \<open>\<open>push\<close> returns the new length of the array.\<close>

definition createCollection ::
  "validate \<Rightarrow> oid \<Rightarrow> oid \<Rightarrow> string \<Rightarrow> 'd store \<Rightarrow> (error + nat) \<times> 'd store" where
  "createCollection V userId mapId collectionTitle s =
     (case validate_arguments V (createCollection_args userId mapId collectionTitle) of
        Some e \<Rightarrow> (Inl e, s)
      | None \<Rightarrow>
     (case PMap_findById mapId s of
        None \<Rightarrow> (Inl (LogicError (''no maps with id '' @ mapId)), s)
      | Some m \<Rightarrow>
          if \<not> m_author m = userId
          then (Inl (LogicError (''map '' @ mapId @ '' is not from user '' @ userId)), s)
          else
            (let m' = m\<lparr>m_collections :=
                         m_collections m @ [\<lparr>c_title = collectionTitle, c_pins = []\<rparr>]\<rparr>;
                 numCol = length (m_collections m');
                 (saved, s') = PMap_save m' s
             in (Inr numCol, s'))))"

definition updateCollection_args :: "oid \<Rightarrow> oid \<Rightarrow> string \<Rightarrow> string \<Rightarrow> arg list" where
  "updateCollection_args userId mapId collectionTitle newTitle =
     [string_notEmpty ''userId'' userId, string_notEmpty ''mapId'' mapId,
      string_notEmpty ''collectionTitle'' collectionTitle,
      string_notEmpty ''newTitle'' newTitle]"

text \<open>
  When no collection has the old title, \<open>colIndex\<close> is -1, \<open>pmap.collections[-1]\<close> is
  undefined, the assignment to its title throws inside the \<open>try\<close> block and the handler
  throws the \<open>LogicError\<close>; nothing is saved.
\<close>

definition updateCollection ::
  "validate \<Rightarrow> oid \<Rightarrow> oid \<Rightarrow> string \<Rightarrow> string \<Rightarrow> 'd store \<Rightarrow> (error + unit) \<times> 'd store" where
  "updateCollection V userId mapId collectionTitle newTitle s =
     (case validate_arguments V (updateCollection_args userId mapId collectionTitle newTitle) of
        Some e \<Rightarrow> (Inl e, s)
      | None \<Rightarrow>
     (case PMap_findById mapId s of
        None \<Rightarrow> (Inl (LogicError (''no maps with id '' @ mapId)), s)
      | Some pmap \<Rightarrow>
          if \<not> m_author pmap = userId
          then (Inl (LogicError (''map '' @ mapId @ '' is not from user '' @ userId)), s)
          else
            (let colIndex = findIndex (\<lambda>col. c_title col = collectionTitle) (m_collections pmap);
                 colIndexNewTitle = findIndex (\<lambda>col. c_title col = newTitle) (m_collections pmap)
             in if colIndexNewTitle > 0
                then (Inl (LogicError (''error updating, collection '' @ newTitle
                             @ '' already exist on map '' @ mapId)), s)
                else if colIndex < 0
                then (Inl (LogicError (''error updating collection '' @ collectionTitle
                             @ '' on map '' @ mapId)), s)
                else
                  (let cols = m_collections pmap;
                       pmap' = pmap\<lparr>m_collections :=
                                 cols[nat colIndex := (cols ! nat colIndex)\<lparr>c_title := newTitle\<rparr>]\<rparr>;
                       (saved, s') = PMap_save pmap' s
                   in (Inr (), s')))))"

subsection \<open>Pin operations\<close>

definition removePin_args :: "oid \<Rightarrow> oid \<Rightarrow> arg list" where
  "removePin_args userId pinId =
     [string_notEmpty ''userId'' userId, string_notEmpty ''pinId'' pinId]"

definition removePin ::
  "validate \<Rightarrow> oid \<Rightarrow> oid \<Rightarrow> 'd store \<Rightarrow> (error + unit) \<times> 'd store" where
  "removePin V userId pinId s =
     (case validate_arguments V (removePin_args userId pinId) of
        Some e \<Rightarrow> (Inl e, s)
      | None \<Rightarrow>
     (case Pin_findOneAndDelete pinId userId s of
        (None, s') \<Rightarrow>
          (Inl (LogicError (''No pin with id '' @ pinId @ '' was found for user '' @ userId)), s')
      | (Some deletedPin, s') \<Rightarrow> (Inr (), s')))"

subsection \<open>The invariant on collection titles\<close>

text \<open>Within each map of the store, no two collections have the same title.\<close>

definition titles_distinct :: "'d store \<Rightarrow> bool" where
  "titles_distinct s = list_all (\<lambda>m. distinct (map c_title (m_collections m))) (st_maps s)"

subsection \<open>A validation utility after the specification\<close>

text \<open>
  Modelled from the spec: photopin-validate is not part of the sources. By section 6 of
  the specification a constraint \<open>{name, value, type, notEmpty}\<close> is violated by a value
  of the wrong type and, when \<open>notEmpty\<close> is set, by the empty string.
\<close>

definition check_arg :: "arg \<Rightarrow> error option" where
  "check_arg a =
     (case arg_value a of
        VString v \<Rightarrow>
          if arg_type a \<noteq> ''string'' then Some TypeError
          else if arg_notEmpty a \<and> v = [] then Some ValueError
          else None
      | VUserData d \<Rightarrow> if arg_type a \<noteq> ''object'' then Some TypeError else None
      | VMapData d \<Rightarrow> if arg_type a \<noteq> ''object'' then Some TypeError else None)"

text \<open>
  Modelled from the spec: \<open>checkArguments\<close> of the missing photopin-validate, which by
  section 6 fails fast with a typed validation error when any constraint of its list is
  violated.
\<close>

fun checkArguments :: "arg list \<Rightarrow> error option" where
  "checkArguments [] = None"
| "checkArguments (a # as) =
     (case check_arg a of Some e \<Rightarrow> Some e | None \<Rightarrow> checkArguments as)"

text \<open>
  Modelled from the spec: \<open>checkEmail\<close> of the missing photopin-validate, which by
  section 6 fails if the value is not a syntactically valid email. The specification
  does not give the syntax; here an email is a string with an \<open>@\<close> that is neither its
  first nor its last character.
\<close>

definition checkEmail :: "string \<Rightarrow> error option" where
  "checkEmail v =
     (if CHR ''@'' \<in> set v \<and> hd v \<noteq> CHR ''@'' \<and> last v \<noteq> CHR ''@'' then None
      else Some FormatError)"

text \<open>
  Modelled from the spec: the validation utility made of the two checks above. The
  theorems of this theory hold for every validation utility; this one is the instance
  the concrete examples run with.
\<close>

definition validate_spec :: validate where
  "validate_spec = \<lparr>validate_arguments = checkArguments, validate_email = checkEmail\<rparr>"

subsection \<open>A concrete store\<close>

text \<open>
  Two users, three maps and two pins. Ann (\<open>u1\<close>) owns the public map \<open>m1\<close>, with the
  collections Trips and Food, and the private map \<open>m2\<close>; Bob (\<open>u2\<close>) owns the private
  map \<open>m3\<close>; each of them has one pin. The credential service of the examples keeps the plaintext reversed.
\<close>

definition demo_bcrypt :: bcrypt where
  "demo_bcrypt = \<lparr>bcrypt_hash = (\<lambda>password rounds. rev password),
                   bcrypt_compare = (\<lambda>password digest. rev password = digest)\<rparr>"

definition ann :: user where
  "ann = \<lparr>u_id = ''u1'', u_name = ''Ann'', u_surname = ''Lee'', u_email = ''ann@x.org'',
           u_password = ''terces'', u_avatar = None, u_language = Some ''en'',
           u_favoritePublicMap = None\<rparr>"

definition bob :: user where
  "bob = \<lparr>u_id = ''u2'', u_name = ''Bob'', u_surname = ''Ray'', u_email = ''bob@x.org'',
           u_password = ''drowssap'', u_avatar = None, u_language = None,
           u_favoritePublicMap = Some ''m1''\<rparr>"

definition alps :: "oid pmap" where
  "alps = \<lparr>m_id = ''m1'', m_title = ''Alps'', m_description = ''Hikes'',
            m_coverImage = ''alps.png'', m_isPublic = True, m_author = ''u1'',
            m_collections =
              [\<lparr>c_title = ''Trips'', c_pins = [''p1'']\<rparr>, \<lparr>c_title = ''Food'', c_pins = []\<rparr>]\<rparr>"

definition home :: "oid pmap" where
  "home = \<lparr>m_id = ''m2'', m_title = ''Home'', m_description = ''Walks'',
            m_coverImage = ''home.png'', m_isPublic = False, m_author = ''u1'',
            m_collections = []\<rparr>"

definition coast :: "oid pmap" where
  "coast = \<lparr>m_id = ''m3'', m_title = ''Coast'', m_description = ''Beaches'',
             m_coverImage = ''coast.png'', m_isPublic = False, m_author = ''u2'',
             m_collections = [\<lparr>c_title = ''Surf'', c_pins = [''p2'']\<rparr>]\<rparr>"

definition summit :: "unit pin" where
  "summit = \<lparr>p_id = ''p1'', p_mapId = ''m1'', p_author = ''u1'', p_data = ()\<rparr>"

definition reef :: "unit pin" where
  "reef = \<lparr>p_id = ''p2'', p_mapId = ''m3'', p_author = ''u2'', p_data = ()\<rparr>"

definition demo_store :: "unit store" where
  "demo_store =
     \<lparr>st_users = [ann, bob], st_maps = [alps, home, coast], st_pins = [summit, reef],
      st_journal = []\<rparr>"

subsection \<open>A driver and a store with ObjectIds in full\<close>

text \<open>
  The instance of the driver the concrete examples run with. A string of 24 hexadecimal
  digits spells an ObjectId, in either case of the letters; \<open>toString\<close> gives the
  lower-case spelling. \<open>equals\<close> holds when the string spells the ObjectId. (The driver
  also reads strings of 12 bytes; no example has one.)
\<close>

definition hex_digit :: "char \<Rightarrow> bool" where
  "hex_digit c = (c \<in> set ''0123456789abcdefABCDEF'')"

definition lower_hex :: "char \<Rightarrow> char" where
  "lower_hex c =
     (if c = CHR ''A'' then CHR ''a'' else if c = CHR ''B'' then CHR ''b''
      else if c = CHR ''C'' then CHR ''c'' else if c = CHR ''D'' then CHR ''d''
      else if c = CHR ''E'' then CHR ''e'' else if c = CHR ''F'' then CHR ''f'' else c)"

definition cast_hex :: "string \<Rightarrow> oid option" where
  "cast_hex v =
     (if length v = 24 \<and> list_all hex_digit v then Some (map lower_hex v) else None)"

definition hex_driver :: driver where
  "hex_driver =
     \<lparr>castObjectId = cast_hex, ObjectId_equals = (\<lambda>i v. cast_hex v = Some i)\<rparr>"

text \<open>
  Dana owns the public map \<open>trail\<close>, whose collection Views holds the pin \<open>ridge\<close>, and
  the private map \<open>attic\<close>. Eli owns nothing. No document has the identifier \<open>id_none\<close>.
\<close>

definition id_dana :: oid where "id_dana = ''5d2f0a9b4c1e3d0012ab34c1''"

definition id_eli :: oid where "id_eli = ''5d2f0a9b4c1e3d0012ab34c2''"

definition id_trail :: oid where "id_trail = ''5d2f0a9b4c1e3d0012ab34d1''"

definition id_attic :: oid where "id_attic = ''5d2f0a9b4c1e3d0012ab34d2''"

definition id_ridge :: oid where "id_ridge = ''5d2f0a9b4c1e3d0012ab34e1''"

definition id_none :: oid where "id_none = ''5d2f0a9b4c1e3d0012ab34ff''"

definition trail :: "oid pmap" where
  "trail = \<lparr>m_id = id_trail, m_title = ''Trail'', m_description = ''Ridge walk'',
             m_coverImage = ''trail.png'', m_isPublic = True, m_author = id_dana,
             m_collections = [\<lparr>c_title = ''Views'', c_pins = [id_ridge]\<rparr>]\<rparr>"

definition attic :: "oid pmap" where
  "attic = \<lparr>m_id = id_attic, m_title = ''Attic'', m_description = ''Boxes'',
             m_coverImage = ''attic.png'', m_isPublic = False, m_author = id_dana,
             m_collections = []\<rparr>"

definition ridge :: "unit pin" where
  "ridge = \<lparr>p_id = id_ridge, p_mapId = id_trail, p_author = id_dana, p_data = ()\<rparr>"

definition hex_store :: "unit store" where
  "hex_store = \<lparr>st_users = [], st_maps = [trail, attic], st_pins = [ridge], st_journal = []\<rparr>"

section \<open>Properties\<close>

subsection \<open>Lists of documents\<close>

lemma find_append_None:
  "find q xs = None \<Longrightarrow> find q (xs @ ys) = find q ys"
  by (induction xs) (auto split: if_splits)

lemma find_Some_holds: "find q xs = Some x \<Longrightarrow> q x"
  by (induction xs) (auto split: if_splits)

lemma find_update_first_same:
  "find q xs = Some x \<Longrightarrow> q (f x) \<Longrightarrow> find q (update_first q f xs) = Some (f x)"
  by (induction xs) (auto split: if_splits)

lemma find_update_first_other:
  "(\<And>x. q x \<Longrightarrow> \<not> r x \<and> \<not> r (f x)) \<Longrightarrow> find r (update_first q f xs) = find r xs"
  by (induction xs) auto

lemma find_None_key:
  "a \<notin> k ` set xs \<Longrightarrow> find (\<lambda>x. k x = a \<and> q x) xs = None"
  by (induction xs) auto

lemma find_delete_first_key:
  "distinct (map k xs) \<Longrightarrow>
   find (\<lambda>x. k x = a \<and> q x) (delete_first (\<lambda>x. k x = a \<and> q x) xs) = None"
proof (induction xs)
  case Nil
  then show ?case by simp
next
  case (Cons x xs)
  show ?case
  proof (cases "k x = a \<and> q x")
    case True
    with Cons.prems have "a \<notin> k ` set xs" by auto
    with True show ?thesis by (simp add: find_None_key)
  next
    case False
    with Cons show ?thesis by auto
  qed
qed

lemma delete_first_remove1:
  "find q xs = Some x \<Longrightarrow> delete_first q xs = remove1 x xs"
  by (induction xs) (auto split: if_splits dest: find_Some_holds)

lemma delete_first_None:
  "find q xs = None \<Longrightarrow> delete_first q xs = xs"
  by (induction xs) (auto split: if_splits)

subsection \<open>The index of the first match\<close>

lemma findIndex_ge: "- 1 \<le> findIndex q xs"
  by (induction xs) (auto simp: Let_def)

lemma findIndex_first:
  "findIndex q xs = int k \<longleftrightarrow> k < length xs \<and> q (xs ! k) \<and> (\<forall>j<k. \<not> q (xs ! j))"
proof (induction xs arbitrary: k)
  case Nil
  then show ?case by simp
next
  case (Cons x xs)
  show ?case
  proof (cases "q x")
    case True
    then show ?thesis by (cases k) auto
  next
    case False
    show ?thesis
    proof (cases k)
      case 0
      with False findIndex_ge[of q xs] show ?thesis by (auto simp: Let_def)
    next
      case (Suc n)
      have "(\<forall>j<Suc n. \<not> q ((x # xs) ! j)) \<longleftrightarrow> (\<forall>j<n. \<not> q (xs ! j))"
        using False by (auto simp: less_Suc_eq_0_disj)
      with Suc False Cons.IH[of n] findIndex_ge[of q xs] show ?thesis
        by (auto simp: Let_def)
    qed
  qed
qed

lemma findIndex_none: "findIndex q xs < 0 \<longleftrightarrow> (\<forall>x\<in>set xs. \<not> q x)"
proof (induction xs)
  case Nil
  then show ?case by simp
next
  case (Cons x xs)
  with findIndex_ge[of q xs] show ?case by (auto simp: Let_def)
qed

subsection \<open>Unfolding the concrete instances\<close>

lemmas validate_spec_simps = validate_spec_def check_arg_def string_notEmpty_def

lemmas demo_defs =
  demo_store_def ann_def bob_def alps_def home_def coast_def summit_def reef_def

lemmas hex_ids = id_dana_def id_eli_def id_trail_def id_attic_def id_ridge_def id_none_def

lemmas hex_defs = hex_store_def trail_def attic_def ridge_def

lemmas hex_driver_simps = hex_driver_def cast_hex_def hex_digit_def lower_hex_def

subsection \<open>Reading maps\<close>

text \<open>
  C1. Let the two arguments pass validation. When \<open>mapId\<close> spells no ObjectId, the
  query of \<open>retrieveUserMap\<close> rejects and the operation fails with the \<open>CastError\<close> of the
  driver, not with a \<open>LogicError\<close>, although no map has that identifier. When \<open>mapId\<close>
  spells an ObjectId, the operation fails with a \<open>LogicError\<close> if no map has it, and if
  the map is private and \<open>equals\<close> of its author rejects the requester; it succeeds,
  with the populated map, for every requester if the map is public, and for the author
  if it is private. The store is the same after the call in all five cases.
\<close>

theorem retrieveUserMap_outcomes:
  assumes "validate_arguments V (retrieveUserMap_args userId mapId) = None"
  shows "(castObjectId D mapId = None \<longrightarrow>
            retrieveUserMap V D userId mapId s = (Inl CastError, s))
       \<and> (\<forall>i. castObjectId D mapId = Some i
              \<and> find (\<lambda>m. m_id m = i) (st_maps s) = None \<longrightarrow>
            retrieveUserMap V D userId mapId s =
              (Inl (LogicError (''no maps for user with id '' @ mapId)), s))
       \<and> (\<forall>i m. castObjectId D mapId = Some i
              \<and> find (\<lambda>m. m_id m = i) (st_maps s) = Some m
              \<and> \<not> m_isPublic m \<and> \<not> ObjectId_equals D (m_author m) userId \<longrightarrow>
            retrieveUserMap V D userId mapId s =
              (Inl (LogicError (''map '' @ mapId @ '' is not from user '' @ userId)), s))
       \<and> (\<forall>i m. castObjectId D mapId = Some i
              \<and> find (\<lambda>m. m_id m = i) (st_maps s) = Some m
              \<and> m_isPublic m \<longrightarrow>
            retrieveUserMap V D userId mapId s = (Inr (populate s m), s))
       \<and> (\<forall>i m. castObjectId D mapId = Some i
              \<and> find (\<lambda>m. m_id m = i) (st_maps s) = Some m
              \<and> \<not> m_isPublic m \<and> ObjectId_equals D (m_author m) userId \<longrightarrow>
            retrieveUserMap V D userId mapId s = (Inr (populate s m), s))"
  using assms by (simp add: retrieveUserMap_def PMap_findById_def)

theorem retrieveUserMap_outcomes_witness:
  "validate_arguments validate_spec (retrieveUserMap_args id_eli ''m9'') = None
   \<and> castObjectId hex_driver ''m9'' = None
   \<and> retrieveUserMap validate_spec hex_driver id_eli ''m9'' hex_store =
       (Inl CastError, hex_store)
   \<and> validate_arguments validate_spec (retrieveUserMap_args id_eli id_none) = None
   \<and> castObjectId hex_driver id_none = Some id_none
   \<and> find (\<lambda>m. m_id m = id_none) (st_maps hex_store) = None
   \<and> retrieveUserMap validate_spec hex_driver id_eli id_none hex_store =
       (Inl (LogicError (''no maps for user with id '' @ id_none)), hex_store)
   \<and> validate_arguments validate_spec (retrieveUserMap_args id_eli id_attic) = None
   \<and> castObjectId hex_driver id_attic = Some id_attic
   \<and> find (\<lambda>m. m_id m = id_attic) (st_maps hex_store) = Some attic
   \<and> \<not> m_isPublic attic
   \<and> \<not> ObjectId_equals hex_driver (m_author attic) id_eli
   \<and> retrieveUserMap validate_spec hex_driver id_eli id_attic hex_store =
       (Inl (LogicError (''map '' @ id_attic @ '' is not from user '' @ id_eli)), hex_store)
   \<and> validate_arguments validate_spec (retrieveUserMap_args id_eli id_trail) = None
   \<and> castObjectId hex_driver id_trail = Some id_trail
   \<and> find (\<lambda>m. m_id m = id_trail) (st_maps hex_store) = Some trail
   \<and> m_isPublic trail
   \<and> retrieveUserMap validate_spec hex_driver id_eli id_trail hex_store =
       (Inr (populate hex_store trail), hex_store)
   \<and> validate_arguments validate_spec
        (retrieveUserMap_args ''5D2F0A9B4C1E3D0012AB34C1'' id_attic) = None
   \<and> ObjectId_equals hex_driver (m_author attic) ''5D2F0A9B4C1E3D0012AB34C1''
   \<and> retrieveUserMap validate_spec hex_driver ''5D2F0A9B4C1E3D0012AB34C1'' id_attic
        hex_store = (Inr (populate hex_store attic), hex_store)
   \<and> populate hex_store trail =
       \<lparr>m_id = id_trail, m_title = ''Trail'', m_description = ''Ridge walk'',
        m_coverImage = ''trail.png'', m_isPublic = True, m_author = id_dana,
        m_collections = [\<lparr>c_title = ''Views'', c_pins = [ridge]\<rparr>]\<rparr>
   \<and> populate hex_store attic =
       \<lparr>m_id = id_attic, m_title = ''Attic'', m_description = ''Boxes'',
        m_coverImage = ''attic.png'', m_isPublic = False, m_author = id_dana,
        m_collections = []\<rparr>"
proof -
  have v: "validate_arguments validate_spec (retrieveUserMap_args u m) = None"
    if "u \<noteq> []" "m \<noteq> []" for u m
    using that by (simp add: retrieveUserMap_args_def validate_spec_simps)
  have v1: "validate_arguments validate_spec (retrieveUserMap_args id_eli ''m9'') = None"
    and v2: "validate_arguments validate_spec (retrieveUserMap_args id_eli id_none) = None"
    and v3: "validate_arguments validate_spec (retrieveUserMap_args id_eli id_attic) = None"
    and v4: "validate_arguments validate_spec (retrieveUserMap_args id_eli id_trail) = None"
    and v5: "validate_arguments validate_spec
        (retrieveUserMap_args ''5D2F0A9B4C1E3D0012AB34C1'' id_attic) = None"
    by (rule v; simp add: hex_ids)+
  have c: "castObjectId hex_driver ''m9'' = None"
    "castObjectId hex_driver id_none = Some id_none"
    "castObjectId hex_driver id_attic = Some id_attic"
    "castObjectId hex_driver id_trail = Some id_trail"
    by (simp_all add: hex_driver_simps hex_ids)
  have f: "find (\<lambda>m. m_id m = id_none) (st_maps hex_store) = None"
    "find (\<lambda>m. m_id m = id_attic) (st_maps hex_store) = Some attic"
    "find (\<lambda>m. m_id m = id_trail) (st_maps hex_store) = Some trail"
    by (simp_all add: hex_defs hex_ids)
  have a: "\<not> m_isPublic attic" "m_isPublic trail"
    by (simp_all add: hex_defs)
  have e: "\<not> ObjectId_equals hex_driver (m_author attic) id_eli"
    "ObjectId_equals hex_driver (m_author attic) ''5D2F0A9B4C1E3D0012AB34C1''"
    by (simp_all add: hex_driver_simps hex_defs hex_ids)
  have p: "populate hex_store trail =
       \<lparr>m_id = id_trail, m_title = ''Trail'', m_description = ''Ridge walk'',
        m_coverImage = ''trail.png'', m_isPublic = True, m_author = id_dana,
        m_collections = [\<lparr>c_title = ''Views'', c_pins = [ridge]\<rparr>]\<rparr>"
    "populate hex_store attic =
       \<lparr>m_id = id_attic, m_title = ''Attic'', m_description = ''Boxes'',
        m_coverImage = ''attic.png'', m_isPublic = False, m_author = id_dana,
        m_collections = []\<rparr>"
    by (simp_all add: populate_def populate_collection_def Pin_findById_def hex_defs
        List.map_filter_simps)
  from retrieveUserMap_outcomes[OF v1, of hex_driver hex_store] c(1)
  have r1: "retrieveUserMap validate_spec hex_driver id_eli ''m9'' hex_store =
              (Inl CastError, hex_store)"
    by simp
  from retrieveUserMap_outcomes[OF v2, of hex_driver hex_store] c(2) f(1)
  have r2: "retrieveUserMap validate_spec hex_driver id_eli id_none hex_store =
       (Inl (LogicError (''no maps for user with id '' @ id_none)), hex_store)"
    by simp
  from retrieveUserMap_outcomes[OF v3, of hex_driver hex_store] c(3) f(2) a(1) e(1)
  have r3: "retrieveUserMap validate_spec hex_driver id_eli id_attic hex_store =
       (Inl (LogicError (''map '' @ id_attic @ '' is not from user '' @ id_eli)), hex_store)"
    by simp
  from retrieveUserMap_outcomes[OF v4, of hex_driver hex_store] c(4) f(3) a(2)
  have r4: "retrieveUserMap validate_spec hex_driver id_eli id_trail hex_store =
       (Inr (populate hex_store trail), hex_store)"
    by simp
  from retrieveUserMap_outcomes[OF v5, of hex_driver hex_store] c(3) f(2) a(1) e(2)
  have r5: "retrieveUserMap validate_spec hex_driver ''5D2F0A9B4C1E3D0012AB34C1'' id_attic
              hex_store = (Inr (populate hex_store attic), hex_store)"
    by simp
  show ?thesis
    by (intro conjI v1 v2 v3 v4 v5 c f a e p r1 r2 r3 r4 r5)
qed

text \<open>
  C9. Let the argument pass validation. When \<open>userId\<close> spells an ObjectId,
  \<open>retrieveUserMaps\<close> returns the maps of the store whose author is that ObjectId and
  leaves the store as it was; for a user who authored none the result is the empty
  list. Whatever \<open>userId\<close> is, the result is never a \<open>LogicError\<close>: the branch that throws
  \<open>no maps for user\<close> is guarded by the falsity of an array and is never taken.
\<close>

theorem retrieveUserMaps_not_found_unreachable:
  assumes "validate_arguments V (retrieveUserMaps_args userId) = None"
  shows "(\<forall>author. castObjectId D userId = Some author \<longrightarrow>
            retrieveUserMaps V D userId s =
              (Inr (filter (\<lambda>m. m_author m = author) (st_maps s)), s))
       \<and> (\<forall>author. castObjectId D userId = Some author
              \<and> filter (\<lambda>m. m_author m = author) (st_maps s) = [] \<longrightarrow>
            retrieveUserMaps V D userId s = (Inr [], s))
       \<and> \<not> is_LogicError (fst (retrieveUserMaps V D userId s))"
  using assms
  by (auto simp add: retrieveUserMaps_def truthy_array_def PMap_find_author_def
      split: option.splits)

theorem retrieveUserMaps_not_found_unreachable_witness:
  "validate_arguments validate_spec (retrieveUserMaps_args id_eli) = None
   \<and> castObjectId hex_driver id_eli = Some id_eli
   \<and> filter (\<lambda>m. m_author m = id_eli) (st_maps hex_store) = []
   \<and> retrieveUserMaps validate_spec hex_driver id_eli hex_store = (Inr [], hex_store)
   \<and> validate_arguments validate_spec (retrieveUserMaps_args id_dana) = None
   \<and> castObjectId hex_driver id_dana = Some id_dana
   \<and> retrieveUserMaps validate_spec hex_driver id_dana hex_store =
       (Inr [trail, attic], hex_store)
   \<and> validate_arguments validate_spec (retrieveUserMaps_args ''u7'') = None
   \<and> \<not> is_LogicError (fst (retrieveUserMaps validate_spec hex_driver ''u7'' hex_store))"
proof -
  have v: "validate_arguments validate_spec (retrieveUserMaps_args id_eli) = None"
    "validate_arguments validate_spec (retrieveUserMaps_args id_dana) = None"
    "validate_arguments validate_spec (retrieveUserMaps_args ''u7'') = None"
    by (simp_all add: retrieveUserMaps_args_def validate_spec_simps hex_ids)
  have c: "castObjectId hex_driver id_eli = Some id_eli"
    "castObjectId hex_driver id_dana = Some id_dana"
    by (simp_all add: hex_driver_simps hex_ids)
  have f: "filter (\<lambda>m. m_author m = id_eli) (st_maps hex_store) = []"
    "filter (\<lambda>m. m_author m = id_dana) (st_maps hex_store) = [trail, attic]"
    by (simp_all add: hex_defs hex_ids)
  from retrieveUserMaps_not_found_unreachable[OF v(1), of hex_driver hex_store] c(1) f(1)
  have r1: "retrieveUserMaps validate_spec hex_driver id_eli hex_store = (Inr [], hex_store)"
    by simp
  from retrieveUserMaps_not_found_unreachable[OF v(2), of hex_driver hex_store] c(2) f(2)
  have r2: "retrieveUserMaps validate_spec hex_driver id_dana hex_store =
       (Inr [trail, attic], hex_store)"
    by simp
  from retrieveUserMaps_not_found_unreachable[OF v(3), of hex_driver hex_store]
  have r3: "\<not> is_LogicError (fst (retrieveUserMaps validate_spec hex_driver ''u7'' hex_store))"
    by simp
  show ?thesis by (intro conjI v c f(1) r1 r2 r3)
qed

text \<open>
  The restriction of C9 to strings that spell an ObjectId is needed: \<open>u7\<close> passes
  validation and spells none, and the operation fails on it with the \<open>CastError\<close>.
\<close>

theorem retrieveUserMaps_cast_error_counterexample:
  "validate_arguments validate_spec (retrieveUserMaps_args ''u7'') = None
   \<and> retrieveUserMaps validate_spec hex_driver ''u7'' hex_store = (Inl CastError, hex_store)"
  by (simp add: retrieveUserMaps_def retrieveUserMaps_args_def validate_spec_simps
      hex_driver_simps)

subsection \<open>Updating a map\<close>

text \<open>
  C5. When the map \<open>M\<close> is owned by \<open>U\<close> and another user calls \<open>updateMap\<close> on it with
  arguments that pass validation, the call fails with the \<open>LogicError\<close> of the ownership
  check and the store after the call is the store before it; in particular the stored
  map is still \<open>M\<close>.
\<close>

theorem updateMap_not_owner:
  assumes "validate_arguments V (updateMap_args otherUser mapId data) = None"
      and "PMap_findById mapId s = Some M"
      and "m_author M = U"
      and "otherUser \<noteq> U"
  shows "updateMap V otherUser mapId data s =
           (Inl (LogicError (''map '' @ mapId @ '' is not from user '' @ otherUser)), s)
       \<and> PMap_findById mapId (snd (updateMap V otherUser mapId data s)) = Some M"
  using assms by (auto simp add: updateMap_def)

theorem updateMap_not_owner_witness:
  "validate_arguments validate_spec
     (updateMap_args ''u2'' ''m1''
        \<lparr>d_title = Some ''Mine'', d_description = None, d_coverImage = None\<rparr>) = None
   \<and> PMap_findById ''m1'' demo_store = Some alps
   \<and> m_author alps = ''u1''
   \<and> ''u2'' \<noteq> ''u1''
   \<and> updateMap validate_spec ''u2'' ''m1''
       \<lparr>d_title = Some ''Mine'', d_description = None, d_coverImage = None\<rparr> demo_store =
       (Inl (LogicError ''map m1 is not from user u2''), demo_store)"
proof -
  let ?d = "\<lparr>d_title = Some ''Mine'', d_description = None, d_coverImage = None\<rparr>"
  have v: "validate_arguments validate_spec (updateMap_args ''u2'' ''m1'' ?d) = None"
    by (simp add: updateMap_args_def validate_spec_simps)
  have f: "PMap_findById ''m1'' demo_store = Some alps"
    by (simp add: PMap_findById_def demo_store_def alps_def)
  have a: "m_author alps = ''u1''" by (simp add: alps_def)
  have n: "''u2'' \<noteq> ''u1''" by simp
  from updateMap_not_owner[OF v f a n] show ?thesis using v f a by simp
qed



subsection \<open>Registering and authenticating\<close>

text \<open>
  C2. Let name, surname, email and password pass the validation of both operations, let
  no user of the store have the email, and let the credential service accept a password
  against its own digest. Then \<open>registerUser\<close> succeeds with the identifier of the new
  document, and \<open>authenticateUser\<close> with the same email and password, run on the store
  that \<open>registerUser\<close> leaves, returns that identifier.
\<close>

theorem register_then_authenticate:
  assumes "validate_arguments V (registerUser_args name surname email password) = None"
      and "validate_arguments V (authenticateUser_args email password) = None"
      and "validate_email V email = None"
      and "User_findOne_email email s = None"
      and "bcrypt_compare B password (bcrypt_hash B password 10)"
  shows "fst (registerUser V B newId name surname email password s) = Inr newId
       \<and> authenticateUser V B email password
           (snd (registerUser V B newId name surname email password s)) =
           (Inr newId, snd (registerUser V B newId name surname email password s))"
proof -
  let ?doc = "\<lparr>u_id = newId, u_name = name, u_surname = surname, u_email = email,
               u_password = bcrypt_hash B password 10, u_avatar = None, u_language = None,
               u_favoritePublicMap = None\<rparr>"
  have run: "registerUser V B newId name surname email password s =
               (Inr newId, snd (User_create ?doc s))"
    using assms(1,3,4) by (simp add: registerUser_def User_create_def)
  from assms(4)
  have found: "User_findOne_email email (snd (User_create ?doc s)) = Some ?doc"
    by (simp add: User_findOne_email_def User_create_def issue_def find_append_None)
  show ?thesis
    unfolding run using assms(2,3,5) found by (simp add: authenticateUser_def)
qed

theorem register_then_authenticate_witness:
  "validate_arguments validate_spec
     (registerUser_args ''Cy'' ''Fox'' ''cy@x.org'' ''hunter2'') = None
   \<and> validate_arguments validate_spec (authenticateUser_args ''cy@x.org'' ''hunter2'') = None
   \<and> validate_email validate_spec ''cy@x.org'' = None
   \<and> User_findOne_email ''cy@x.org'' demo_store = None
   \<and> bcrypt_compare demo_bcrypt ''hunter2'' (bcrypt_hash demo_bcrypt ''hunter2'' 10)
   \<and> fst (registerUser validate_spec demo_bcrypt ''u3'' ''Cy'' ''Fox'' ''cy@x.org''
            ''hunter2'' demo_store) = Inr ''u3''
   \<and> fst (authenticateUser validate_spec demo_bcrypt ''cy@x.org'' ''hunter2''
            (snd (registerUser validate_spec demo_bcrypt ''u3'' ''Cy'' ''Fox'' ''cy@x.org''
                    ''hunter2'' demo_store))) = Inr ''u3''"
proof -
  have v: "validate_arguments validate_spec
             (registerUser_args ''Cy'' ''Fox'' ''cy@x.org'' ''hunter2'') = None"
    "validate_arguments validate_spec (authenticateUser_args ''cy@x.org'' ''hunter2'') = None"
    by (simp_all add: registerUser_args_def authenticateUser_args_def validate_spec_simps)
  have e: "validate_email validate_spec ''cy@x.org'' = None"
    by (simp add: validate_spec_def checkEmail_def)
  have f: "User_findOne_email ''cy@x.org'' demo_store = None"
    by (simp add: User_findOne_email_def demo_store_def ann_def bob_def)
  have c: "bcrypt_compare demo_bcrypt ''hunter2'' (bcrypt_hash demo_bcrypt ''hunter2'' 10)"
    by (simp add: demo_bcrypt_def)
  from register_then_authenticate[OF v e f c, of "''u3''"]
  show ?thesis using v e f c by simp
qed

subsection \<open>Updating and removing a user\<close>

text \<open>
  C10. For an existing user and arguments that pass validation, \<open>updateUser\<close> returns
  the identifier, name, surname, email, avatar, language and favourite map of the user
  document as they were before the update (the password is not part of the result),
  while the store after the call holds, under the same identifier, the document in
  which each field that the data has is set to the value of the data and each other
  field is kept. The documents of the other users, the maps and the pins are unchanged.
\<close>

theorem updateUser_returns_previous:
  assumes "validate_arguments V (updateUser_args userId data) = None"
      and "find (\<lambda>x. u_id x = userId) (st_users s) = Some u"
  shows "fst (updateUser V userId data s) =
           Inr \<lparr>uv_id = u_id u, uv_name = u_name u, uv_surname = u_surname u,
                uv_email = u_email u, uv_avatar = u_avatar u, uv_language = u_language u,
                uv_favoritePublicMap = u_favoritePublicMap u\<rparr>
       \<and> find (\<lambda>x. u_id x = userId) (st_users (snd (updateUser V userId data s))) =
           Some \<lparr>u_id = u_id u,
                 u_name = (case d_name data of Some v \<Rightarrow> v | None \<Rightarrow> u_name u),
                 u_surname = (case d_surname data of Some v \<Rightarrow> v | None \<Rightarrow> u_surname u),
                 u_email = (case d_email data of Some v \<Rightarrow> v | None \<Rightarrow> u_email u),
                 u_password = (case d_password data of Some v \<Rightarrow> v | None \<Rightarrow> u_password u),
                 u_avatar = (case d_avatar data of Some v \<Rightarrow> Some v | None \<Rightarrow> u_avatar u),
                 u_language =
                   (case d_language data of Some v \<Rightarrow> Some v | None \<Rightarrow> u_language u),
                 u_favoritePublicMap =
                   (case d_favoritePublicMap data of Some v \<Rightarrow> Some v
                    | None \<Rightarrow> u_favoritePublicMap u)\<rparr>
       \<and> (\<forall>other. other \<noteq> userId \<longrightarrow>
            find (\<lambda>x. u_id x = other) (st_users (snd (updateUser V userId data s))) =
              find (\<lambda>x. u_id x = other) (st_users s))
       \<and> st_maps (snd (updateUser V userId data s)) = st_maps s
       \<and> st_pins (snd (updateUser V userId data s)) = st_pins s"
proof -
  from assms(2) have id: "u_id u = userId"
    by (auto dest: find_Some_holds)
  then have id': "u_id (set_fields data u) = userId"
    by (simp add: set_fields_def)
  have stored: "set_fields data u =
           \<lparr>u_id = u_id u,
                 u_name = (case d_name data of Some v \<Rightarrow> v | None \<Rightarrow> u_name u),
                 u_surname = (case d_surname data of Some v \<Rightarrow> v | None \<Rightarrow> u_surname u),
                 u_email = (case d_email data of Some v \<Rightarrow> v | None \<Rightarrow> u_email u),
                 u_password = (case d_password data of Some v \<Rightarrow> v | None \<Rightarrow> u_password u),
                 u_avatar = (case d_avatar data of Some v \<Rightarrow> Some v | None \<Rightarrow> u_avatar u),
                 u_language =
                   (case d_language data of Some v \<Rightarrow> Some v | None \<Rightarrow> u_language u),
                 u_favoritePublicMap =
                   (case d_favoritePublicMap data of Some v \<Rightarrow> Some v
                    | None \<Rightarrow> u_favoritePublicMap u)\<rparr>"
    by (cases u) (simp add: set_fields_def split: option.splits)
  have same: "find (\<lambda>x. u_id x = userId)
          (update_first (\<lambda>x. u_id x = userId) (set_fields data) (st_users s))
        = Some (set_fields data u)"
    using assms(2) id' by (intro find_update_first_same) simp_all
  have other: "find (\<lambda>x. u_id x = other)
          (update_first (\<lambda>x. u_id x = userId) (set_fields data) (st_users s))
        = find (\<lambda>x. u_id x = other) (st_users s)" if "other \<noteq> userId" for other
    using that by (intro find_update_first_other) (auto simp: set_fields_def)
  have run: "updateUser V userId data s =
      (Inr (select_user u),
       issue (FindByIdAndUpdate User userId)
        (s\<lparr>st_users := update_first (\<lambda>x. u_id x = userId) (set_fields data) (st_users s)\<rparr>))"
    using assms by (simp add: updateUser_def User_findByIdAndUpdate_def User_findById_def)
  show ?thesis
    unfolding run using same other stored
    by (simp add: select_user_def issue_def)
qed

theorem updateUser_returns_previous_witness:
  "validate_arguments validate_spec
     (updateUser_args ''u1''
        \<lparr>d_name = Some ''Anna'', d_surname = None, d_email = Some ''anna@x.org'',
         d_password = Some ''pw'', d_avatar = Some ''a.png'', d_language = None,
         d_favoritePublicMap = Some ''m1''\<rparr>) = None
   \<and> find (\<lambda>x. u_id x = ''u1'') (st_users demo_store) =
       Some \<lparr>u_id = ''u1'', u_name = ''Ann'', u_surname = ''Lee'', u_email = ''ann@x.org'',
             u_password = ''terces'', u_avatar = None, u_language = Some ''en'',
             u_favoritePublicMap = None\<rparr>
   \<and> fst (updateUser validate_spec ''u1''
        \<lparr>d_name = Some ''Anna'', d_surname = None, d_email = Some ''anna@x.org'',
         d_password = Some ''pw'', d_avatar = Some ''a.png'', d_language = None,
         d_favoritePublicMap = Some ''m1''\<rparr> demo_store) =
       Inr \<lparr>uv_id = ''u1'', uv_name = ''Ann'', uv_surname = ''Lee'', uv_email = ''ann@x.org'',
            uv_avatar = None, uv_language = Some ''en'', uv_favoritePublicMap = None\<rparr>
   \<and> find (\<lambda>x. u_id x = ''u1'') (st_users (snd (updateUser validate_spec ''u1''
        \<lparr>d_name = Some ''Anna'', d_surname = None, d_email = Some ''anna@x.org'',
         d_password = Some ''pw'', d_avatar = Some ''a.png'', d_language = None,
         d_favoritePublicMap = Some ''m1''\<rparr> demo_store))) =
       Some \<lparr>u_id = ''u1'', u_name = ''Anna'', u_surname = ''Lee'', u_email = ''anna@x.org'',
             u_password = ''pw'', u_avatar = Some ''a.png'', u_language = Some ''en'',
             u_favoritePublicMap = Some ''m1''\<rparr>
   \<and> find (\<lambda>x. u_id x = ''u2'') (st_users (snd (updateUser validate_spec ''u1''
        \<lparr>d_name = Some ''Anna'', d_surname = None, d_email = Some ''anna@x.org'',
         d_password = Some ''pw'', d_avatar = Some ''a.png'', d_language = None,
         d_favoritePublicMap = Some ''m1''\<rparr> demo_store))) = Some bob"
proof -
  let ?d = "\<lparr>d_name = Some ''Anna'', d_surname = None, d_email = Some ''anna@x.org'',
         d_password = Some ''pw'', d_avatar = Some ''a.png'', d_language = None,
         d_favoritePublicMap = Some ''m1''\<rparr>"
  let ?ann = "\<lparr>u_id = ''u1'', u_name = ''Ann'', u_surname = ''Lee'', u_email = ''ann@x.org'',
             u_password = ''terces'', u_avatar = None, u_language = Some ''en'',
             u_favoritePublicMap = None\<rparr>"
  have v: "validate_arguments validate_spec (updateUser_args ''u1'' ?d) = None"
    by (simp add: updateUser_args_def validate_spec_simps)
  have f: "find (\<lambda>x. u_id x = ''u1'') (st_users demo_store) = Some ?ann"
    by (simp add: demo_store_def ann_def)
  have b: "find (\<lambda>x. u_id x = ''u2'') (st_users demo_store) = Some bob"
    by (simp add: demo_store_def ann_def bob_def)
  note t = updateUser_returns_previous[OF v f]
  from t have r1: "fst (updateUser validate_spec ''u1'' ?d demo_store) =
       Inr \<lparr>uv_id = ''u1'', uv_name = ''Ann'', uv_surname = ''Lee'', uv_email = ''ann@x.org'',
            uv_avatar = None, uv_language = Some ''en'', uv_favoritePublicMap = None\<rparr>"
    by simp
  from t have r2: "find (\<lambda>x. u_id x = ''u1'')
         (st_users (snd (updateUser validate_spec ''u1'' ?d demo_store))) =
       Some \<lparr>u_id = ''u1'', u_name = ''Anna'', u_surname = ''Lee'', u_email = ''anna@x.org'',
             u_password = ''pw'', u_avatar = Some ''a.png'', u_language = Some ''en'',
             u_favoritePublicMap = Some ''m1''\<rparr>"
    by simp
  from t[THEN conjunct2, THEN conjunct2, THEN conjunct1, THEN spec, of "''u2''"] b
  have r3: "find (\<lambda>x. u_id x = ''u2'')
         (st_users (snd (updateUser validate_spec ''u1'' ?d demo_store))) = Some bob"
    by simp
  show ?thesis by (intro conjI v f r1 r2 r3)
qed

text \<open>
  C6. For an existing user whose identifier passes validation, in a store whose user
  identifiers are unique, \<open>removeUser\<close> succeeds with the deleted document. Afterwards
  no map and no pin has the user as author and no user has the identifier. The write
  calls the operation adds to the journal are, in this order, the deletion of the pins,
  the deletion of the maps and the deletion of the user.
\<close>

theorem removeUser_cascade:
  assumes "validate_arguments V (removeUser_args U) = None"
      and "User_findById U s = Some u"
      and "distinct (map u_id (st_users s))"
  shows "fst (removeUser V U s) = Inr (Some u)
       \<and> PMap_find_author U (snd (removeUser V U s)) = []
       \<and> filter (\<lambda>p. p_author p = U) (st_pins (snd (removeUser V U s))) = []
       \<and> User_findById U (snd (removeUser V U s)) = None
       \<and> st_journal (snd (removeUser V U s)) =
           st_journal s @ [DeleteMany Pin U, DeleteMany PMap U, FindByIdAndDelete User U]"
proof -
  have gone: "find (\<lambda>x. u_id x = U) (delete_first (\<lambda>x. u_id x = U) (st_users s)) = None"
    using find_delete_first_key[OF assms(3), of U "\<lambda>x. True"] by simp
  show ?thesis
    using assms(1,2) gone
    by (simp add: removeUser_def User_findByIdAndDelete_def User_findById_def
        Pin_deleteMany_author_def PMap_deleteMany_author_def PMap_find_author_def issue_def)
qed

theorem removeUser_cascade_witness:
  "validate_arguments validate_spec (removeUser_args ''u1'') = None
   \<and> User_findById ''u1'' demo_store = Some ann
   \<and> distinct (map u_id (st_users demo_store))
   \<and> removeUser validate_spec ''u1'' demo_store =
       (Inr (Some ann),
        \<lparr>st_users = [bob], st_maps = [coast], st_pins = [reef],
         st_journal =
           [DeleteMany Pin ''u1'', DeleteMany PMap ''u1'', FindByIdAndDelete User ''u1'']\<rparr>)"
proof -
  have v: "validate_arguments validate_spec (removeUser_args ''u1'') = None"
    by (simp add: removeUser_args_def validate_spec_simps)
  have f: "User_findById ''u1'' demo_store = Some ann"
    by (simp add: User_findById_def demo_store_def ann_def)
  have d: "distinct (map u_id (st_users demo_store))"
    by (simp add: demo_store_def ann_def bob_def)
  have r: "snd (removeUser validate_spec ''u1'' demo_store) =
        \<lparr>st_users = [bob], st_maps = [coast], st_pins = [reef],
         st_journal =
           [DeleteMany Pin ''u1'', DeleteMany PMap ''u1'', FindByIdAndDelete User ''u1'']\<rparr>"
    using v f
    by (simp add: removeUser_def User_findByIdAndDelete_def User_findById_def
        Pin_deleteMany_author_def PMap_deleteMany_author_def issue_def demo_store_def
        ann_def bob_def alps_def home_def coast_def summit_def reef_def)
  from removeUser_cascade[OF v f d]
  have "fst (removeUser validate_spec ''u1'' demo_store) = Inr (Some ann)" by simp
  with r have "removeUser validate_spec ''u1'' demo_store =
       (Inr (Some ann),
        \<lparr>st_users = [bob], st_maps = [coast], st_pins = [reef],
         st_journal =
           [DeleteMany Pin ''u1'', DeleteMany PMap ''u1'', FindByIdAndDelete User ''u1'']\<rparr>)"
    by (simp add: prod_eq_iff)
  with v f d show ?thesis by (intro conjI)
qed

subsection \<open>Removing a pin\<close>

text \<open>
  C7. With arguments that pass validation, in a store whose pin identifiers are unique,
  \<open>removePin\<close> issues the single call \<open>findOneAndDelete\<close> filtered by identifier and
  author. When a pin matches, the call succeeds and that pin is gone from the store;
  when none matches, the call fails with the \<open>LogicError\<close> "No pin with id ... was found
  for user ..." and no document changes. Whatever the first call did, a second call
  with the same arguments fails with that \<open>LogicError\<close>.
\<close>

theorem removePin_once_then_fails:
  assumes "validate_arguments V (removePin_args U pinId) = None"
      and "distinct (map p_id (st_pins s))"
  shows "(\<forall>p. find (\<lambda>p. p_id p = pinId \<and> p_author p = U) (st_pins s) = Some p \<longrightarrow>
            removePin V U pinId s =
              (Inr (),
               issue (FindOneAndDelete Pin pinId U) (s\<lparr>st_pins := remove1 p (st_pins s)\<rparr>)))
       \<and> (find (\<lambda>p. p_id p = pinId \<and> p_author p = U) (st_pins s) = None \<longrightarrow>
            removePin V U pinId s =
              (Inl (LogicError (''No pin with id '' @ pinId @ '' was found for user '' @ U)),
               issue (FindOneAndDelete Pin pinId U) s))
       \<and> fst (removePin V U pinId (snd (removePin V U pinId s))) =
            Inl (LogicError (''No pin with id '' @ pinId @ '' was found for user '' @ U))"
proof -
  let ?q = "\<lambda>p. p_id p = pinId \<and> p_author p = U"
  have gone: "find ?q (delete_first ?q (st_pins s)) = None"
    by (rule find_delete_first_key[OF assms(2)])
  have after: "st_pins (snd (removePin V U pinId s)) = delete_first ?q (st_pins s)"
    using assms(1)
    by (simp add: removePin_def Pin_findOneAndDelete_def issue_def split: option.splits)
  have fails: "fst (removePin V U pinId s') =
            Inl (LogicError (''No pin with id '' @ pinId @ '' was found for user '' @ U))"
    if "find ?q (st_pins s') = None" for s' :: "'a store"
    using assms(1) that by (simp add: removePin_def Pin_findOneAndDelete_def)
  show ?thesis
    using assms(1) fails[of "snd (removePin V U pinId s)"] gone after
    by (auto simp add: removePin_def Pin_findOneAndDelete_def delete_first_remove1
        delete_first_None)
qed

theorem removePin_once_then_fails_witness:
  "validate_arguments validate_spec (removePin_args ''u1'' ''p1'') = None
   \<and> distinct (map p_id (st_pins demo_store))
   \<and> find (\<lambda>p. p_id p = ''p1'' \<and> p_author p = ''u1'') (st_pins demo_store) = Some summit
   \<and> removePin validate_spec ''u1'' ''p1'' demo_store =
       (Inr (),
        demo_store\<lparr>st_pins := [reef], st_journal := [FindOneAndDelete Pin ''p1'' ''u1'']\<rparr>)
   \<and> fst (removePin validate_spec ''u1'' ''p1''
            (snd (removePin validate_spec ''u1'' ''p1'' demo_store))) =
       Inl (LogicError ''No pin with id p1 was found for user u1'')
   \<and> validate_arguments validate_spec (removePin_args ''u1'' ''p2'') = None
   \<and> find (\<lambda>p. p_id p = ''p2'' \<and> p_author p = ''u1'') (st_pins demo_store) = None
   \<and> removePin validate_spec ''u1'' ''p2'' demo_store =
       (Inl (LogicError ''No pin with id p2 was found for user u1''),
        demo_store\<lparr>st_journal := [FindOneAndDelete Pin ''p2'' ''u1'']\<rparr>)"
proof -
  have v: "validate_arguments validate_spec (removePin_args ''u1'' ''p1'') = None"
     "validate_arguments validate_spec (removePin_args ''u1'' ''p2'') = None"
    by (simp_all add: removePin_args_def validate_spec_simps)
  have d: "distinct (map p_id (st_pins demo_store))"
    by (simp add: demo_store_def summit_def reef_def)
  have f: "find (\<lambda>p. p_id p = ''p1'' \<and> p_author p = ''u1'') (st_pins demo_store) = Some summit"
    "find (\<lambda>p. p_id p = ''p2'' \<and> p_author p = ''u1'') (st_pins demo_store) = None"
    by (simp_all add: demo_store_def summit_def reef_def)
  have r: "remove1 summit (st_pins demo_store) = [reef]" "st_journal demo_store = []"
    by (simp_all add: demo_store_def)
  note once = removePin_once_then_fails[OF v(1) d]
  note never = removePin_once_then_fails[OF v(2) d]
  from once f(1) r
  have r1: "removePin validate_spec ''u1'' ''p1'' demo_store =
       (Inr (),
        demo_store\<lparr>st_pins := [reef], st_journal := [FindOneAndDelete Pin ''p1'' ''u1'']\<rparr>)"
    by (simp add: issue_def)
  from once
  have r2: "fst (removePin validate_spec ''u1'' ''p1''
                  (snd (removePin validate_spec ''u1'' ''p1'' demo_store))) =
       Inl (LogicError ''No pin with id p1 was found for user u1'')"
    by simp
  from never f(2) r
  have r3: "removePin validate_spec ''u1'' ''p2'' demo_store =
       (Inl (LogicError ''No pin with id p2 was found for user u1''),
        demo_store\<lparr>st_journal := [FindOneAndDelete Pin ''p2'' ''u1'']\<rparr>)"
    by (simp add: issue_def)
  show ?thesis by (intro conjI v d f r1 r2 r3)
qed

subsection \<open>Collections\<close>

lemma findIndex_positive:
  assumes "0 < i" "i < length xs" "q (xs ! i)" "\<not> q (xs ! 0)"
  shows "0 < findIndex q xs"
proof -
  from assms(2,3) have "\<not> findIndex q xs < 0"
    unfolding findIndex_none using nth_mem by blast
  then obtain k where k: "findIndex q xs = int k"
    using zero_le_imp_eq_int[of "findIndex q xs"] by auto
  then have "q (xs ! k)" by (simp add: findIndex_first)
  with assms(4) have "k \<noteq> 0" by (cases k) auto
  with k show ?thesis by simp
qed

lemma findIndex_head: "xs \<noteq> [] \<Longrightarrow> q (xs ! 0) \<Longrightarrow> findIndex q xs = 0"
  by (cases xs) auto

lemma updateCollection_detected:
  assumes "validate_arguments V (updateCollection_args userId mapId oldTitle newTitle) = None"
      and "PMap_findById mapId s = Some pmap"
      and "m_author pmap = userId"
      and "0 < findIndex (\<lambda>col. c_title col = newTitle) (m_collections pmap)"
  shows "updateCollection V userId mapId oldTitle newTitle s =
           (Inl (LogicError (''error updating, collection '' @ newTitle
                   @ '' already exist on map '' @ mapId)), s)"
  using assms by (simp add: updateCollection_def)

lemma updateCollection_renames:
  assumes "validate_arguments V (updateCollection_args userId mapId oldTitle newTitle) = None"
      and "PMap_findById mapId s = Some pmap"
      and "m_author pmap = userId"
      and "findIndex (\<lambda>col. c_title col = newTitle) (m_collections pmap) \<le> 0"
      and "findIndex (\<lambda>col. c_title col = oldTitle) (m_collections pmap) = int k"
  shows "fst (updateCollection V userId mapId oldTitle newTitle s) = Inr ()
       \<and> PMap_findById mapId (snd (updateCollection V userId mapId oldTitle newTitle s)) =
           Some (pmap\<lparr>m_collections :=
                   (m_collections pmap)[k := (m_collections pmap ! k)\<lparr>c_title := newTitle\<rparr>]\<rparr>)
       \<and> st_users (snd (updateCollection V userId mapId oldTitle newTitle s)) = st_users s
       \<and> st_pins (snd (updateCollection V userId mapId oldTitle newTitle s)) = st_pins s"
proof -
  let ?p = "pmap\<lparr>m_collections :=
                   (m_collections pmap)[k := (m_collections pmap ! k)\<lparr>c_title := newTitle\<rparr>]\<rparr>"
  from assms(2) have "m_id pmap = mapId"
    unfolding PMap_findById_def by (auto dest: find_Some_holds)
  then have id: "m_id ?p = mapId" by simp
  have run: "updateCollection V userId mapId oldTitle newTitle s = (Inr (), snd (PMap_save ?p s))"
    using assms by (simp add: updateCollection_def Let_def split_beta)
  have "find (\<lambda>m. m_id m = mapId) (update_first (\<lambda>m. m_id m = mapId) (\<lambda>m. ?p) (st_maps s)) = Some ?p"
    using assms(2) id unfolding PMap_findById_def by (intro find_update_first_same) simp_all
  then show ?thesis
    unfolding run using id by (simp add: PMap_save_def PMap_findById_def issue_def)
qed

text \<open>
  C4. For a map owned by the caller and arguments that pass validation, write \<open>cols\<close> for
  the collections of the map. \<open>updateCollection\<close> fails with the \<open>LogicError\<close>
  "collection ... already exist" when a collection titled \<open>newTitle\<close> stands at an index
  greater than zero and the collection at index 0 is not titled \<open>newTitle\<close>. When the
  collection at index 0 is titled \<open>newTitle\<close> the collision is not detected, and neither
  is there one when no collection is titled \<open>newTitle\<close>: in both cases the first
  collection titled \<open>oldTitle\<close>, at index \<open>k\<close>, is renamed where it stands. The stored map
  is the old one with the title at index \<open>k\<close> replaced; the pins of that collection, the
  other collections, the users and the pins of the store are unchanged.
\<close>

theorem updateCollection_collision_past_first_only:
  fixes cols :: "oid collection list"
  assumes "validate_arguments V (updateCollection_args userId mapId oldTitle newTitle) = None"
      and "PMap_findById mapId s = Some pmap"
      and "m_author pmap = userId"
  defines "cols \<equiv> m_collections pmap"
  shows "(\<forall>i. 0 < i \<and> i < length cols \<and> c_title (cols ! i) = newTitle
              \<and> c_title (cols ! 0) \<noteq> newTitle \<longrightarrow>
            updateCollection V userId mapId oldTitle newTitle s =
              (Inl (LogicError (''error updating, collection '' @ newTitle
                      @ '' already exist on map '' @ mapId)), s))
       \<and> (\<forall>k. ((cols \<noteq> [] \<and> c_title (cols ! 0) = newTitle) \<or> newTitle \<notin> c_title ` set cols)
              \<and> k < length cols \<and> c_title (cols ! k) = oldTitle
              \<and> (\<forall>j<k. c_title (cols ! j) \<noteq> oldTitle) \<longrightarrow>
            fst (updateCollection V userId mapId oldTitle newTitle s) = Inr ()
            \<and> PMap_findById mapId (snd (updateCollection V userId mapId oldTitle newTitle s)) =
                Some (pmap\<lparr>m_collections := cols[k := (cols ! k)\<lparr>c_title := newTitle\<rparr>]\<rparr>)
            \<and> st_users (snd (updateCollection V userId mapId oldTitle newTitle s)) = st_users s
            \<and> st_pins (snd (updateCollection V userId mapId oldTitle newTitle s)) = st_pins s)"
proof (intro conjI allI impI)
  fix i
  assume "0 < i \<and> i < length cols \<and> c_title (cols ! i) = newTitle \<and> c_title (cols ! 0) \<noteq> newTitle"
  then have "0 < findIndex (\<lambda>col. c_title col = newTitle) (m_collections pmap)"
    unfolding cols_def by (intro findIndex_positive[of i]) simp_all
  with assms(1-3) show "updateCollection V userId mapId oldTitle newTitle s =
              (Inl (LogicError (''error updating, collection '' @ newTitle
                      @ '' already exist on map '' @ mapId)), s)"
    by (rule updateCollection_detected)
next
  fix k
  assume h: "((cols \<noteq> [] \<and> c_title (cols ! 0) = newTitle) \<or> newTitle \<notin> c_title ` set cols)
              \<and> k < length cols \<and> c_title (cols ! k) = oldTitle
              \<and> (\<forall>j<k. c_title (cols ! j) \<noteq> oldTitle)"
  then have new: "findIndex (\<lambda>col. c_title col = newTitle) (m_collections pmap) \<le> 0"
  proof (elim conjE disjE)
    assume "cols \<noteq> []" "c_title (cols ! 0) = newTitle"
    then show ?thesis unfolding cols_def by (simp add: findIndex_head)
  next
    assume "newTitle \<notin> c_title ` set cols"
    then have "findIndex (\<lambda>col. c_title col = newTitle) (m_collections pmap) < 0"
      unfolding cols_def findIndex_none by auto
    then show ?thesis by simp
  qed
  from h have old: "findIndex (\<lambda>col. c_title col = oldTitle) (m_collections pmap) = int k"
    unfolding cols_def findIndex_first by simp
  from updateCollection_renames[OF assms(1-3) new old]
  show "fst (updateCollection V userId mapId oldTitle newTitle s) = Inr ()"
    "PMap_findById mapId (snd (updateCollection V userId mapId oldTitle newTitle s)) =
                Some (pmap\<lparr>m_collections := cols[k := (cols ! k)\<lparr>c_title := newTitle\<rparr>]\<rparr>)"
    "st_users (snd (updateCollection V userId mapId oldTitle newTitle s)) = st_users s"
    "st_pins (snd (updateCollection V userId mapId oldTitle newTitle s)) = st_pins s"
    unfolding cols_def by simp_all
qed


theorem updateCollection_collision_past_first_only_witness:
  "validate_arguments validate_spec (updateCollection_args ''u1'' ''m1'' ''Trips'' ''Food'') = None
   \<and> validate_arguments validate_spec (updateCollection_args ''u1'' ''m1'' ''Food'' ''Trips'') = None
   \<and> validate_arguments validate_spec (updateCollection_args ''u1'' ''m1'' ''Food'' ''Snacks'') = None
   \<and> PMap_findById ''m1'' demo_store = Some alps
   \<and> m_author alps = ''u1''
   \<and> map c_title (m_collections alps) = [''Trips'', ''Food'']
   \<and> updateCollection validate_spec ''u1'' ''m1'' ''Trips'' ''Food'' demo_store =
       (Inl (LogicError ''error updating, collection Food already exist on map m1''), demo_store)
   \<and> fst (updateCollection validate_spec ''u1'' ''m1'' ''Food'' ''Trips'' demo_store) = Inr ()
   \<and> PMap_findById ''m1''
       (snd (updateCollection validate_spec ''u1'' ''m1'' ''Food'' ''Trips'' demo_store)) =
       Some (alps\<lparr>m_collections :=
               [\<lparr>c_title = ''Trips'', c_pins = [''p1'']\<rparr>, \<lparr>c_title = ''Trips'', c_pins = []\<rparr>]\<rparr>)
   \<and> fst (updateCollection validate_spec ''u1'' ''m1'' ''Food'' ''Snacks'' demo_store) = Inr ()
   \<and> PMap_findById ''m1''
       (snd (updateCollection validate_spec ''u1'' ''m1'' ''Food'' ''Snacks'' demo_store)) =
       Some (alps\<lparr>m_collections :=
               [\<lparr>c_title = ''Trips'', c_pins = [''p1'']\<rparr>, \<lparr>c_title = ''Snacks'', c_pins = []\<rparr>]\<rparr>)"
proof -
  have v: "validate_arguments validate_spec (updateCollection_args ''u1'' ''m1'' ''Trips'' ''Food'') = None"
    "validate_arguments validate_spec (updateCollection_args ''u1'' ''m1'' ''Food'' ''Trips'') = None"
    "validate_arguments validate_spec (updateCollection_args ''u1'' ''m1'' ''Food'' ''Snacks'') = None"
    by (simp_all add: updateCollection_args_def validate_spec_simps)
  have f: "PMap_findById ''m1'' demo_store = Some alps"
    by (simp add: PMap_findById_def demo_store_def alps_def)
  have a: "m_author alps = ''u1''" by (simp add: alps_def)
  have c: "m_collections alps =
             [\<lparr>c_title = ''Trips'', c_pins = [''p1'']\<rparr>, \<lparr>c_title = ''Food'', c_pins = []\<rparr>]"
    by (simp add: alps_def)
  have t: "map c_title (m_collections alps) = [''Trips'', ''Food'']"
    by (simp add: c)
  note detected = updateCollection_collision_past_first_only[OF v(1) f a]
  note at_first = updateCollection_collision_past_first_only[OF v(2) f a]
  note no_clash = updateCollection_collision_past_first_only[OF v(3) f a]
  from detected[THEN conjunct1, THEN spec, of 1]
  have r1: "updateCollection validate_spec ''u1'' ''m1'' ''Trips'' ''Food'' demo_store =
       (Inl (LogicError ''error updating, collection Food already exist on map m1''), demo_store)"
    by (simp add: c)
  from at_first[THEN conjunct2, THEN spec, of 1]
  have r2: "fst (updateCollection validate_spec ''u1'' ''m1'' ''Food'' ''Trips'' demo_store) = Inr ()"
    "PMap_findById ''m1''
       (snd (updateCollection validate_spec ''u1'' ''m1'' ''Food'' ''Trips'' demo_store)) =
       Some (alps\<lparr>m_collections :=
               [\<lparr>c_title = ''Trips'', c_pins = [''p1'']\<rparr>, \<lparr>c_title = ''Trips'', c_pins = []\<rparr>]\<rparr>)"
    by (simp_all add: c)
  from no_clash[THEN conjunct2, THEN spec, of 1]
  have r3: "fst (updateCollection validate_spec ''u1'' ''m1'' ''Food'' ''Snacks'' demo_store) = Inr ()"
    "PMap_findById ''m1''
       (snd (updateCollection validate_spec ''u1'' ''m1'' ''Food'' ''Snacks'' demo_store)) =
       Some (alps\<lparr>m_collections :=
               [\<lparr>c_title = ''Trips'', c_pins = [''p1'']\<rparr>, \<lparr>c_title = ''Snacks'', c_pins = []\<rparr>]\<rparr>)"
    by (simp_all add: c)
  show ?thesis by (intro conjI v f a t r1 r2 r3)
qed

text \<open>
  C3. The operations do not preserve the invariant that the collection titles of a map
  are pairwise distinct. The concrete store satisfies it. There, two calls of
  \<open>createCollection\<close> with the title Trips on the map \<open>m2\<close> both succeed, returning 1
  and 2, and the store after the second holds a map with two collections titled Trips.
  Also there, \<open>updateCollection\<close> renaming Food to Trips on the map \<open>m1\<close>, whose first
  collection is titled Trips, succeeds and leaves two collections titled Trips.
\<close>

theorem duplicate_titles_reachable:
  "titles_distinct demo_store
   \<and> fst (createCollection validate_spec ''u1'' ''m2'' ''Trips'' demo_store) = Inr 1
   \<and> titles_distinct (snd (createCollection validate_spec ''u1'' ''m2'' ''Trips'' demo_store))
   \<and> fst (createCollection validate_spec ''u1'' ''m2'' ''Trips''
            (snd (createCollection validate_spec ''u1'' ''m2'' ''Trips'' demo_store))) = Inr 2
   \<and> \<not> titles_distinct
         (snd (createCollection validate_spec ''u1'' ''m2'' ''Trips''
                (snd (createCollection validate_spec ''u1'' ''m2'' ''Trips'' demo_store))))
   \<and> fst (updateCollection validate_spec ''u1'' ''m1'' ''Food'' ''Trips'' demo_store) = Inr ()
   \<and> \<not> titles_distinct
         (snd (updateCollection validate_spec ''u1'' ''m1'' ''Food'' ''Trips'' demo_store))"
proof -
  have c1: "createCollection validate_spec ''u1'' ''m2'' ''Trips'' demo_store =
     (Inr 1, demo_store\<lparr>st_maps := [alps, home\<lparr>m_collections := [\<lparr>c_title = ''Trips'', c_pins = []\<rparr>]\<rparr>, coast],
                        st_journal := [Save PMap ''m2'']\<rparr>)"
    by (simp add: createCollection_def createCollection_args_def validate_spec_simps
        PMap_findById_def PMap_save_def issue_def demo_defs)
  have c2: "createCollection validate_spec ''u1'' ''m2'' ''Trips''
      (demo_store\<lparr>st_maps := [alps, home\<lparr>m_collections := [\<lparr>c_title = ''Trips'', c_pins = []\<rparr>]\<rparr>, coast],
                        st_journal := [Save PMap ''m2'']\<rparr>) =
     (Inr 2, demo_store\<lparr>st_maps := [alps, home\<lparr>m_collections :=
                [\<lparr>c_title = ''Trips'', c_pins = []\<rparr>, \<lparr>c_title = ''Trips'', c_pins = []\<rparr>]\<rparr>, coast],
                        st_journal := [Save PMap ''m2'', Save PMap ''m2'']\<rparr>)"
    by (simp add: createCollection_def createCollection_args_def validate_spec_simps
        PMap_findById_def PMap_save_def issue_def demo_defs)
  have u: "updateCollection validate_spec ''u1'' ''m1'' ''Food'' ''Trips'' demo_store =
     (Inr (), demo_store\<lparr>st_maps := [alps\<lparr>m_collections :=
                [\<lparr>c_title = ''Trips'', c_pins = [''p1'']\<rparr>, \<lparr>c_title = ''Trips'', c_pins = []\<rparr>]\<rparr>, home, coast],
                        st_journal := [Save PMap ''m1'']\<rparr>)"
    by (simp add: updateCollection_def updateCollection_args_def validate_spec_simps
        PMap_findById_def PMap_save_def issue_def demo_defs)
  have t0: "titles_distinct demo_store"
    by (simp add: titles_distinct_def demo_defs)
  have t1: "titles_distinct (snd (createCollection validate_spec ''u1'' ''m2'' ''Trips'' demo_store))"
    unfolding c1 by (simp add: titles_distinct_def demo_defs)
  have r2: "fst (createCollection validate_spec ''u1'' ''m2'' ''Trips''
            (snd (createCollection validate_spec ''u1'' ''m2'' ''Trips'' demo_store))) = Inr 2"
    unfolding c1 snd_conv c2 by simp
  have t2: "\<not> titles_distinct
         (snd (createCollection validate_spec ''u1'' ''m2'' ''Trips''
                (snd (createCollection validate_spec ''u1'' ''m2'' ''Trips'' demo_store))))"
    unfolding c1 snd_conv c2 by (simp add: titles_distinct_def demo_defs)
  have t3: "\<not> titles_distinct
         (snd (updateCollection validate_spec ''u1'' ''m1'' ''Food'' ''Trips'' demo_store))"
    unfolding u by (simp add: titles_distinct_def demo_defs)
  have r1: "fst (createCollection validate_spec ''u1'' ''m2'' ''Trips'' demo_store) = Inr 1"
    unfolding c1 by simp
  have r3: "fst (updateCollection validate_spec ''u1'' ''m1'' ''Food'' ''Trips'' demo_store) = Inr ()"
    unfolding u by simp
  show ?thesis by (intro conjI t0 r1 t1 r2 t2 r3 t3)
qed

end
